theory Spec2Isabelle
  imports Complex_Main "HOL-Library.Sublist"
begin

section \<open>The Rose Glass perception engine\<close>

text \<open>
  A shallow embedding of the dimensional perception engine:
  \<^item> \<^verbatim>\<open>src/services/rose-glass/biological-optimization.ts\<close> (the optimizer),
  \<^item> \<^verbatim>\<open>src/services/rose-glass/types.ts\<close> (the data model),
  \<^item> \<^verbatim>\<open>src/services/rose-glass/calibrations/code-analysis.ts\<close> (the built-in lens),
  \<^item> \<^verbatim>\<open>src/services/rose-glass/rose-glass.service.ts\<close> (the service).

  A thrown \<^verbatim>\<open>Error(message)\<close> is the value \<open>Inl (Error message)\<close> of a sum type.
\<close>

subsection \<open>Numbers\<close>

text \<open>
  A TypeScript \<^verbatim>\<open>number\<close> is an IEEE double. Two readings of it are used.

  The first is \<^typ>\<open>real\<close>: exact arithmetic on finite values. The functions without a
  suffix are written over it; they carry the statements about formulas, thresholds and the
  registry, none of which depends on the value of a quotient at a zero divisor or on a
  non-finite value.

  The second is the type \<open>number\<close> below, for statements about ranges, whose truth depends
  on what the program does with NaN and the infinities. It has the finite values, the two
  infinities and NaN. A sum or difference that reaches the overflow threshold of doubles
  (\<open>2\<^sup>1\<^sup>0\<^sup>2\<^sup>4 - 2\<^sup>9\<^sup>7\<^sup>0\<close>, from where rounding to nearest gives an infinity) is that infinity;
  a product or quotient does the same, and is 0 when its magnitude is at most \<open>2\<^sup>-\<^sup>1\<^sup>0\<^sup>7\<^sup>5\<close>,
  where rounding to nearest gives 0. NaN and the infinities combine as IEEE 754 says
  (\<open>Infinity - Infinity\<close>, \<open>0 * Infinity\<close>, \<open>0 / 0\<close> and \<open>Infinity / Infinity\<close> are NaN), every
  comparison with NaN is false, and \<^verbatim>\<open>Math.min\<close> and \<^verbatim>\<open>Math.max\<close> return NaN when an
  argument is NaN. Within the finite range the arithmetic is exact: the rounding of
  results to 53 bits is not modelled, and neither is the sign of zero (a zero divisor
  counts as \<open>+0\<close>). The functions over \<open>number\<close> carry the suffix \<open>_ieee\<close>.
\<close>

datatype number = Fin real | PInf | NInf | NaN

definition overflow_threshold :: real where
  "overflow_threshold = 2 ^ 1024 - 2 ^ 970"

definition underflow_threshold :: real where
  "underflow_threshold = 1 / 2 ^ 1075"

definition overflow :: "real \<Rightarrow> number" where
  "overflow x = (if overflow_threshold \<le> x then PInf
                 else if x \<le> - overflow_threshold then NInf
                 else Fin x)"

definition round_range :: "real \<Rightarrow> number" where
  "round_range x = (if \<bar>x\<bar> \<le> underflow_threshold then Fin 0 else overflow x)"

fun sign :: "number \<Rightarrow> real" where
  "sign (Fin x) = sgn x"
| "sign PInf = 1"
| "sign NInf = - 1"
| "sign NaN = 0"

definition infinity :: "real \<Rightarrow> number" where
  "infinity s = (if 0 < s then PInf else if s < 0 then NInf else NaN)"

fun negate :: "number \<Rightarrow> number" where
  "negate (Fin x) = Fin (- x)"
| "negate PInf = NInf"
| "negate NInf = PInf"
| "negate NaN = NaN"

instantiation number :: "{plus, minus, times, inverse, ord}"
begin

definition plus_number :: "number \<Rightarrow> number \<Rightarrow> number" where
  "a + b = (case (a, b) of
              (NaN, _) \<Rightarrow> NaN
            | (_, NaN) \<Rightarrow> NaN
            | (Fin x, Fin y) \<Rightarrow> overflow ((x::real) + y)
            | (PInf, NInf) \<Rightarrow> NaN
            | (NInf, PInf) \<Rightarrow> NaN
            | (PInf, _) \<Rightarrow> PInf
            | (_, PInf) \<Rightarrow> PInf
            | (NInf, _) \<Rightarrow> NInf
            | (_, NInf) \<Rightarrow> NInf)"

definition minus_number :: "number \<Rightarrow> number \<Rightarrow> number" where
  "a - b = a + negate b"

definition times_number :: "number \<Rightarrow> number \<Rightarrow> number" where
  "a * b = (case (a, b) of
              (NaN, _) \<Rightarrow> NaN
            | (_, NaN) \<Rightarrow> NaN
            | (Fin x, Fin y) \<Rightarrow> round_range ((x::real) * y)
            | _ \<Rightarrow> infinity (sign a * sign b))"

definition divide_number :: "number \<Rightarrow> number \<Rightarrow> number" where
  "divide_number a b =
           (case (a, b) of
              (NaN, _) \<Rightarrow> NaN
            | (_, NaN) \<Rightarrow> NaN
            | (Fin x, Fin y) \<Rightarrow> (if y = 0 then infinity (sgn x) else round_range ((x::real) / y))
            | (Fin x, _) \<Rightarrow> Fin 0
            | (_, Fin y) \<Rightarrow> infinity (if (y::real) < 0 then - sign a else sign a)
            | _ \<Rightarrow> NaN)"

definition inverse_number :: "number \<Rightarrow> number" where
  "inverse_number a =
           (case a of
              NaN \<Rightarrow> NaN
            | Fin y \<Rightarrow> (if y = 0 then PInf else round_range (1 / (y::real)))
            | _ \<Rightarrow> Fin 0)"

definition less_eq_number :: "number \<Rightarrow> number \<Rightarrow> bool" where
  "a \<le> b = (case (a, b) of
              (NaN, _) \<Rightarrow> False
            | (_, NaN) \<Rightarrow> False
            | (Fin x, Fin y) \<Rightarrow> (x::real) \<le> y
            | (NInf, _) \<Rightarrow> True
            | (_, PInf) \<Rightarrow> True
            | _ \<Rightarrow> False)"

definition less_number :: "number \<Rightarrow> number \<Rightarrow> bool" where
  "a < b = (case (a, b) of
              (NaN, _) \<Rightarrow> False
            | (_, NaN) \<Rightarrow> False
            | (Fin x, Fin y) \<Rightarrow> (x::real) < y
            | (NInf, NInf) \<Rightarrow> False
            | (PInf, PInf) \<Rightarrow> False
            | (NInf, _) \<Rightarrow> True
            | (_, PInf) \<Rightarrow> True
            | _ \<Rightarrow> False)"

instance ..

end

text \<open>\<^verbatim>\<open>Math.min\<close> and \<^verbatim>\<open>Math.max\<close>: NaN when an argument is NaN.\<close>

definition Math_min :: "number \<Rightarrow> number \<Rightarrow> number" where
  "Math_min a b = (if a = NaN \<or> b = NaN then NaN else if a \<le> b then a else b)"

definition Math_max :: "number \<Rightarrow> number \<Rightarrow> number" where
  "Math_max a b = (if a = NaN \<or> b = NaN then NaN else if a \<le> b then b else a)"

subsection \<open>biological-optimization.ts\<close>

text \<open>
  \<^verbatim>\<open>
  export function optimizeQ(q: number, Km: number = 0.2, Ki: number = 0.8): number {
    if (q <= 0) return 0;
    if (q >= 1) q = 0.999; // Prevent division issues
    const denominator = Km + q + (q * q) / Ki;
    return q / denominator;
  }
  \<close>
  The reassignment of the parameter \<^verbatim>\<open>q\<close> is the local \<open>q'\<close>. The default values of
  \<^verbatim>\<open>Km\<close> and \<^verbatim>\<open>Ki\<close> stand in for an omitted argument only; the service always
  passes both, so the function takes the three numbers.
\<close>

definition optimizeQ :: "real \<Rightarrow> real \<Rightarrow> real \<Rightarrow> real" where
  "optimizeQ q Km Ki =
     (if q \<le> 0 then 0
      else let q' = (if q \<ge> 1 then 0.999 else q);
               denominator = Km + q' + (q' * q') / Ki
           in q' / denominator)"

text \<open>The same function over \<open>number\<close>; the literals are finite values.\<close>

definition optimizeQ_ieee :: "number \<Rightarrow> number \<Rightarrow> number \<Rightarrow> number" where
  "optimizeQ_ieee q Km Ki =
     (if q \<le> Fin 0 then Fin 0
      else let q' = (if q \<ge> Fin 1 then Fin 0.999 else q);
               denominator = Km + q' + (q' * q') / Ki
           in q' / denominator)"

subsection \<open>types.ts\<close>

text \<open>
  The interfaces carry \<^verbatim>\<open>number\<close> fields. The records take the type of numbers as their
  parameter \<open>'n\<close>, so that one data model serves both readings of \<^verbatim>\<open>number\<close>:
  \<^typ>\<open>real\<close> and \<^typ>\<open>number\<close>.
\<close>

record 'n RawDimensions =
  psi :: 'n
  rho :: 'n
  q :: 'n
  f :: 'n

record 'n ExtendedDimensions = "'n RawDimensions" +
  tau :: 'n
  lambda :: 'n

record 'n BiologicalParams =
  Km :: 'n
  Ki :: 'n

text \<open>
  The anonymous type of \<^verbatim>\<open>weights\<close>, \<^verbatim>\<open>{ psi; rho; q; f }\<close>, has exactly the fields
  of \<^verbatim>\<open>RawDimensions\<close>; TypeScript types are structural, so it is that record. The
  optional \<^verbatim>\<open>expectedPatterns?\<close> is an option.
\<close>

record 'n LensCalibration =
  name :: string
  description :: string
  weights :: "'n RawDimensions"
  biologicalParams :: "'n BiologicalParams"
  expectedPatterns :: "string list option"

datatype Confidence = Low | Medium | High

subsection \<open>calibrations/code-analysis.ts\<close>

definition codeAnalysisLens :: "real LensCalibration" where
  "codeAnalysisLens =
     \<lparr> name = ''code-analysis'',
       description = ''Perceives code repository coherence patterns'',
       weights = \<lparr> psi = 0.3, rho = 0.3, q = 0.15, f = 0.25 \<rparr>,
       biologicalParams = \<lparr> Km = 0.2, Ki = 0.8 \<rparr>,
       expectedPatterns = Some
         [''error-handling'', ''type-safety'', ''test-coverage'', ''documentation'',
          ''consistent-style'', ''modular-structure'', ''dependency-hygiene''] \<rparr>"

definition codeAnalysisLens_ieee :: "number LensCalibration" where
  "codeAnalysisLens_ieee =
     \<lparr> name = ''code-analysis'',
       description = ''Perceives code repository coherence patterns'',
       weights = \<lparr> psi = Fin 0.3, rho = Fin 0.3, q = Fin 0.15, f = Fin 0.25 \<rparr>,
       biologicalParams = \<lparr> Km = Fin 0.2, Ki = Fin 0.8 \<rparr>,
       expectedPatterns = Some
         [''error-handling'', ''type-safety'', ''test-coverage'', ''documentation'',
          ''consistent-style'', ''modular-structure'', ''dependency-hygiene''] \<rparr>"

subsection \<open>rose-glass.service.ts\<close>

datatype error = Error string

text \<open>
  The service's state: the private \<^verbatim>\<open>Map<string, LensCalibration>\<close> and the default
  lens name. The constructor registers the built-in lens into the empty map.
\<close>

record 'n RoseGlassService =
  lenses :: "string \<rightharpoonup> 'n LensCalibration"
  defaultLens :: string

definition registerLens ::
  "'n RoseGlassService \<Rightarrow> 'n LensCalibration \<Rightarrow> 'n RoseGlassService" where
  "registerLens this calibration =
     this\<lparr> lenses := (lenses this)(name calibration \<mapsto> calibration) \<rparr>"

definition newRoseGlassService :: "real RoseGlassService" where
  "newRoseGlassService =
     registerLens \<lparr> lenses = Map.empty, defaultLens = ''code-analysis'' \<rparr> codeAnalysisLens"

definition newRoseGlassService_ieee :: "number RoseGlassService" where
  "newRoseGlassService_ieee =
     registerLens \<lparr> lenses = Map.empty, defaultLens = ''code-analysis'' \<rparr> codeAnalysisLens_ieee"

text \<open>
  \<^verbatim>\<open>name ?? this.defaultLens\<close> takes the default when the optional argument is absent;
  \<^verbatim>\<open>Map.get\<close> is \<^verbatim>\<open>undefined\<close> on a missing key, and a calibration object is always
  truthy, so \<^verbatim>\<open>!lens\<close> is exactly the missing key.
\<close>

definition getLens :: "'n RoseGlassService \<Rightarrow> string option \<Rightarrow> error + 'n LensCalibration" where
  "getLens this nameOpt =
     (let lensName = (case nameOpt of None \<Rightarrow> defaultLens this | Some n \<Rightarrow> n)
      in case lenses this lensName of
           None \<Rightarrow> Inl (Error (''Unknown lens: '' @ lensName))
         | Some lens \<Rightarrow> Inr lens)"

text \<open>
  \<^verbatim>\<open>calculateCoherence\<close> returns the object \<^verbatim>\<open>{ coherence, qOptimized }\<close>, which its
  caller destructures at once: the pair \<open>(coherence, qOptimized)\<close>.
\<close>

definition calculateCoherence ::
  "real ExtendedDimensions \<Rightarrow> real LensCalibration \<Rightarrow> real \<times> real" where
  "calculateCoherence dimensions lens =
     (let qOptimized = optimizeQ (q dimensions) (Km (biologicalParams lens)) (Ki (biologicalParams lens));
          coupling = tau dimensions * lambda dimensions;
          rawCoherence = psi dimensions + rho dimensions * psi dimensions + qOptimized
                           + f dimensions * psi dimensions + coupling;
          coherence = min 4.0 (max 0.0 rawCoherence)
      in (coherence, qOptimized))"

definition calculateCoherence_ieee ::
  "number ExtendedDimensions \<Rightarrow> number LensCalibration \<Rightarrow> number \<times> number" where
  "calculateCoherence_ieee dimensions lens =
     (let qOptimized = optimizeQ_ieee (q dimensions) (Km (biologicalParams lens))
                         (Ki (biologicalParams lens));
          coupling = tau dimensions * lambda dimensions;
          rawCoherence = psi dimensions + rho dimensions * psi dimensions + qOptimized
                           + f dimensions * psi dimensions + coupling;
          coherence = Math_min (Fin 4.0) (Math_max (Fin 0.0) rawCoherence)
      in (coherence, qOptimized))"

definition estimateTemporalDepth :: "real RawDimensions \<Rightarrow> real" where
  "estimateTemporalDepth d =
     (let rawTau = rho d * 0.6 + psi d * 0.4
      in min 1.0 (max 0.0 rawTau))"

definition estimateLensInterference :: "real RawDimensions \<Rightarrow> real" where
  "estimateLensInterference d =
     (let inconsistency = 1.0 - psi d;
          rawLambda = inconsistency * q d * 0.5
      in min 1.0 (max 0.0 rawLambda))"

definition estimateTemporalDepth_ieee :: "number RawDimensions \<Rightarrow> number" where
  "estimateTemporalDepth_ieee d =
     (let rawTau = rho d * Fin 0.6 + psi d * Fin 0.4
      in Math_min (Fin 1.0) (Math_max (Fin 0.0) rawTau))"

definition estimateLensInterference_ieee :: "number RawDimensions \<Rightarrow> number" where
  "estimateLensInterference_ieee d =
     (let inconsistency = Fin 1.0 - psi d;
          rawLambda = inconsistency * q d * Fin 0.5
      in Math_min (Fin 1.0) (Math_max (Fin 0.0) rawLambda))"

text \<open>
  \<^verbatim>\<open>detected.push(tag)\<close> under an \<^verbatim>\<open>if\<close> appends the tag or nothing; the pushes
  run in the order of the source.
\<close>

definition push_if :: "bool \<Rightarrow> string \<Rightarrow> string list" where
  "push_if c tag = (if c then [tag] else [])"

definition detectPatterns ::
  "real ExtendedDimensions \<Rightarrow> real LensCalibration \<Rightarrow> string list" where
  "detectPatterns d lens =
       push_if (psi d \<ge> 0.7) ''high-consistency''
     @ push_if (psi d \<le> 0.3) ''low-consistency''
     @ push_if (rho d \<ge> 0.7) ''battle-tested''
     @ push_if (rho d \<le> 0.3) ''immature''
     @ push_if (q d \<ge> 0.7) ''high-activation''
     @ push_if (q d \<le> 0.2) ''dormant''
     @ push_if (f d \<ge> 0.7) ''well-integrated''
     @ push_if (f d \<le> 0.3) ''isolated''
     @ push_if (tau d \<ge> 0.7) ''deep-history''
     @ push_if (tau d \<le> 0.3) ''ephemeral''
     @ push_if (lambda d \<ge> 0.5) ''observer-interference''
     @ push_if (psi d \<ge> 0.7 \<and> rho d \<ge> 0.7) ''stable-mature''
     @ push_if (psi d \<le> 0.3 \<and> q d \<ge> 0.7) ''chaotic-active''
     @ push_if (f d \<ge> 0.7 \<and> rho d \<ge> 0.7) ''ecosystem-anchor''"

definition detectPatterns_ieee ::
  "number ExtendedDimensions \<Rightarrow> number LensCalibration \<Rightarrow> string list" where
  "detectPatterns_ieee d lens =
       push_if (psi d \<ge> Fin 0.7) ''high-consistency''
     @ push_if (psi d \<le> Fin 0.3) ''low-consistency''
     @ push_if (rho d \<ge> Fin 0.7) ''battle-tested''
     @ push_if (rho d \<le> Fin 0.3) ''immature''
     @ push_if (q d \<ge> Fin 0.7) ''high-activation''
     @ push_if (q d \<le> Fin 0.2) ''dormant''
     @ push_if (f d \<ge> Fin 0.7) ''well-integrated''
     @ push_if (f d \<le> Fin 0.3) ''isolated''
     @ push_if (tau d \<ge> Fin 0.7) ''deep-history''
     @ push_if (tau d \<le> Fin 0.3) ''ephemeral''
     @ push_if (lambda d \<ge> Fin 0.5) ''observer-interference''
     @ push_if (psi d \<ge> Fin 0.7 \<and> rho d \<ge> Fin 0.7) ''stable-mature''
     @ push_if (psi d \<le> Fin 0.3 \<and> q d \<ge> Fin 0.7) ''chaotic-active''
     @ push_if (f d \<ge> Fin 0.7 \<and> rho d \<ge> Fin 0.7) ''ecosystem-anchor''"

definition generateWarnings :: "real ExtendedDimensions \<Rightarrow> real \<Rightarrow> string list" where
  "generateWarnings d coherence =
       push_if (coherence < 1.0) ''Low overall coherence - substrate may be unstable''
     @ push_if (psi d \<le> 0.3 \<and> q d \<ge> 0.7)
         ''High activation with low consistency - potential instability''
     @ push_if (f d \<le> 0.3 \<and> rho d \<ge> 0.5) ''Isolated despite maturity - integration issues''
     @ push_if (lambda d \<ge> 0.6) ''High observer interference - perception may be distorted''
     @ push_if (q d \<ge> 0.9) ''Extreme activation detected - biological optimization applied''
     @ push_if (tau d \<le> 0.2 \<and> rho d \<ge> 0.5)
         ''Shallow temporal depth despite accumulated wisdom - anomaly''"

definition generateWarnings_ieee :: "number ExtendedDimensions \<Rightarrow> number \<Rightarrow> string list" where
  "generateWarnings_ieee d coherence =
       push_if (coherence < Fin 1.0) ''Low overall coherence - substrate may be unstable''
     @ push_if (psi d \<le> Fin 0.3 \<and> q d \<ge> Fin 0.7)
         ''High activation with low consistency - potential instability''
     @ push_if (f d \<le> Fin 0.3 \<and> rho d \<ge> Fin 0.5)
         ''Isolated despite maturity - integration issues''
     @ push_if (lambda d \<ge> Fin 0.6) ''High observer interference - perception may be distorted''
     @ push_if (q d \<ge> Fin 0.9) ''Extreme activation detected - biological optimization applied''
     @ push_if (tau d \<le> Fin 0.2 \<and> rho d \<ge> Fin 0.5)
         ''Shallow temporal depth despite accumulated wisdom - anomaly''"

definition assessConfidence :: "real ExtendedDimensions \<Rightarrow> Confidence" where
  "assessConfidence d =
     (let signalStrength = (psi d + rho d + q d + f d) / 4;
          interferenceAdjusted = signalStrength * (1.0 - lambda d * 0.5)
      in if interferenceAdjusted \<ge> 0.6 then High
         else if interferenceAdjusted \<ge> 0.35 then Medium
         else Low)"

definition assessConfidence_ieee :: "number ExtendedDimensions \<Rightarrow> Confidence" where
  "assessConfidence_ieee d =
     (let signalStrength = (psi d + rho d + q d + f d) / Fin 4;
          interferenceAdjusted = signalStrength * (Fin 1.0 - lambda d * Fin 0.5)
      in if interferenceAdjusted \<ge> Fin 0.6 then High
         else if interferenceAdjusted \<ge> Fin 0.35 then Medium
         else Low)"

record 'n PerceptionReport =
  lens :: string
  dimensions :: "'n ExtendedDimensions"
  coherence :: 'n
  qOptimized :: 'n
  confidence :: Confidence
  patterns :: "string list"
  warnings :: "string list"

text \<open>
  \<^verbatim>\<open>perceive\<close>: the throw of \<^verbatim>\<open>getLens\<close> propagates; the spread
  \<^verbatim>\<open>{ ...dimensions, tau, lambda }\<close> copies the four raw fields as they are. The
  parameter \<^verbatim>\<open>dimensions\<close> and the locals are named apart from the fields of the report
  (\<open>dims\<close>, \<open>l\<close>, \<open>coh\<close>, \<open>qOpt\<close>, \<open>pats\<close>, \<open>warns\<close>, \<open>conf\<close>).
\<close>

definition perceive ::
  "real RoseGlassService \<Rightarrow> real RawDimensions \<Rightarrow> string option
     \<Rightarrow> error + real PerceptionReport" where
  "perceive this dims lensName =
     (case getLens this lensName of
        Inl e \<Rightarrow> Inl e
      | Inr l \<Rightarrow>
          (let extended = \<lparr> psi = psi dims, rho = rho dims, q = q dims, f = f dims,
                            tau = estimateTemporalDepth dims,
                            lambda = estimateLensInterference dims \<rparr>;
               (coh, qOpt) = calculateCoherence extended l;
               pats = detectPatterns extended l;
               warns = generateWarnings extended coh;
               conf = assessConfidence extended
           in Inr \<lparr> lens = name l, dimensions = extended, coherence = coh,
                     qOptimized = qOpt, confidence = conf, patterns = pats,
                     warnings = warns \<rparr>))"

definition perceive_ieee ::
  "number RoseGlassService \<Rightarrow> number RawDimensions \<Rightarrow> string option
     \<Rightarrow> error + number PerceptionReport" where
  "perceive_ieee this dims lensName =
     (case getLens this lensName of
        Inl e \<Rightarrow> Inl e
      | Inr l \<Rightarrow>
          (let extended = \<lparr> psi = psi dims, rho = rho dims, q = q dims, f = f dims,
                            tau = estimateTemporalDepth_ieee dims,
                            lambda = estimateLensInterference_ieee dims \<rparr>;
               (coh, qOpt) = calculateCoherence_ieee extended l;
               pats = detectPatterns_ieee extended l;
               warns = generateWarnings_ieee extended coh;
               conf = assessConfidence_ieee extended
           in Inr \<lparr> lens = name l, dimensions = extended, coherence = coh,
                     qOptimized = qOpt, confidence = conf, patterns = pats,
                     warnings = warns \<rparr>))"

subsection \<open>The specification's vocabulary\<close>

text \<open>
  The specification writes \<^verbatim>\<open>clamp(x, lo, hi)\<close> and \<^verbatim>\<open>clamp01(x)\<close>; this is the
  usual reading of those words, defined on its own to be compared with the
  \<^verbatim>\<open>Math.min(hi, Math.max(lo, x))\<close> of the source.
\<close>

definition spec_clamp :: "real \<Rightarrow> real \<Rightarrow> real \<Rightarrow> real" where
  "spec_clamp x lo hi = (if x < lo then lo else if hi < x then hi else x)"

definition spec_clamp01 :: "real \<Rightarrow> real" where
  "spec_clamp01 x = spec_clamp x 0 1"

text \<open>
  \<open>in_range lo hi n\<close>: the number \<open>n\<close> is a finite value within \<open>[lo, hi]\<close>; \<open>positive n\<close>: it
  is a finite value above 0.
\<close>

definition in_range :: "real \<Rightarrow> real \<Rightarrow> number \<Rightarrow> bool" where
  "in_range lo hi n = (case n of Fin x \<Rightarrow> lo \<le> x \<and> x \<le> hi | _ \<Rightarrow> False)"

definition positive :: "number \<Rightarrow> bool" where
  "positive n = (case n of Fin x \<Rightarrow> 0 < x | _ \<Rightarrow> False)"

text \<open>The fourteen tags of \<^verbatim>\<open>detectPatterns\<close>, in the order of its pushes.\<close>

definition patternTags :: "string list" where
  "patternTags =
     [''high-consistency'', ''low-consistency'', ''battle-tested'', ''immature'',
      ''high-activation'', ''dormant'', ''well-integrated'', ''isolated'',
      ''deep-history'', ''ephemeral'', ''observer-interference'',
      ''stable-mature'', ''chaotic-active'', ''ecosystem-anchor'']"

section \<open>Properties\<close>

subsection \<open>Evaluation and basic facts\<close>

lemmas eval_defs = perceive_def getLens_def newRoseGlassService_def registerLens_def
  codeAnalysisLens_def calculateCoherence_def optimizeQ_def detectPatterns_def push_if_def
  generateWarnings_def assessConfidence_def estimateTemporalDepth_def
  estimateLensInterference_def Let_def

lemma optimizeQ_nonpos: "a \<le> 0 \<Longrightarrow> optimizeQ a km ki = 0"
  by (simp add: optimizeQ_def)

lemma optimizeQ_unit:
  assumes "0 < a" "a < 1"
  shows "optimizeQ a km ki = a / (km + a + a\<^sup>2 / ki)"
  using assms by (simp add: optimizeQ_def power2_eq_square)

lemma damped_iff:
  fixes a D :: real
  assumes "0 < a" "0 < D"
  shows "a / D < a \<longleftrightarrow> 1 < D"
proof -
  have "a / D < a \<longleftrightarrow> a < a * D"
    using assms by (simp add: pos_divide_less_eq)
  also have "\<dots> \<longleftrightarrow> a * 1 < a * D" by simp
  also have "\<dots> \<longleftrightarrow> 1 < D"
    using assms(1) by (simp only: mult_less_cancel_left_pos)
  finally show ?thesis .
qed

lemma min_max_clamp: "lo \<le> hi \<Longrightarrow> min hi (max lo x) = spec_clamp x lo hi"
  by (simp add: spec_clamp_def min_def max_def)


lemma tau_range: "0 \<le> estimateTemporalDepth d \<and> estimateTemporalDepth d \<le> 1"
  by (simp add: estimateTemporalDepth_def Let_def)

lemma lambda_range: "0 \<le> estimateLensInterference d \<and> estimateLensInterference d \<le> 1"
  by (simp add: estimateLensInterference_def Let_def)

subsection \<open>The registry\<close>

lemma lenses_registerLens:
  "lenses (registerLens this c) n = (if name c = n then Some c else lenses this n)"
  by (auto simp add: registerLens_def)

lemma defaultLens_registerLens: "defaultLens (registerLens this c) = defaultLens this"
  by (simp add: registerLens_def)

lemma defaultLens_registered:
  "defaultLens (foldl registerLens newRoseGlassService cs) = ''code-analysis''"
proof (induction cs rule: rev_induct)
  case Nil
  show ?case by (simp add: newRoseGlassService_def registerLens_def)
next
  case (snoc c cs)
  then show ?case by (simp add: defaultLens_registerLens)
qed

lemma name_codeAnalysisLens: "name codeAnalysisLens = ''code-analysis''"
  by (simp add: codeAnalysisLens_def)

lemma lenses_new:
  "lenses newRoseGlassService n = (if n = ''code-analysis'' then Some codeAnalysisLens else None)"
  by (simp add: newRoseGlassService_def registerLens_def codeAnalysisLens_def)

lemma getLens_new_default: "getLens newRoseGlassService None = Inr codeAnalysisLens"
  by (simp add: getLens_def newRoseGlassService_def registerLens_def codeAnalysisLens_def)

text \<open>
  After any sequence of registrations the map holds, under each name, the calibration
  registered last under it: the first hit in the reversed registration history.
\<close>

lemma lenses_registered:
  "lenses (foldl registerLens newRoseGlassService cs) n
     = find (\<lambda>c. name c = n) (rev (codeAnalysisLens # cs))"
proof (induction cs rule: rev_induct)
  case Nil
  show ?case by (auto simp add: lenses_new name_codeAnalysisLens)
next
  case (snoc c cs)
  then show ?case by (simp add: lenses_registerLens)
qed

lemma getLens_Some:
  "getLens this (Some n) =
     (case lenses this n of None \<Rightarrow> Inl (Error (''Unknown lens: '' @ n)) | Some c \<Rightarrow> Inr c)"
  by (simp add: getLens_def)

lemma getLens_None: "getLens this None = getLens this (Some (defaultLens this))"
  by (simp add: getLens_def)

lemma getLens_registered:
  "lenses this n = Some c \<Longrightarrow> getLens this (Some n) = Inr c"
  by (simp add: getLens_def)

lemma find_None_image: "n \<notin> name ` set xs \<Longrightarrow> find (\<lambda>c. name c = n) xs = None"
  by (auto simp add: find_None_iff)

subsection \<open>The pipeline\<close>

lemma perceive_unknown:
  "getLens this n = Inl e \<Longrightarrow> perceive this d n = Inl e"
  by (simp add: perceive_def)

text \<open>What \<^verbatim>\<open>perceive\<close> returns once the lens resolves, field by field.\<close>

lemma perceive_known:
  assumes "getLens this n = Inr l"
  shows "\<exists>r. perceive this d n = Inr r
           \<and> lens r = name l
           \<and> psi (dimensions r) = psi d \<and> rho (dimensions r) = rho d
           \<and> q (dimensions r) = q d \<and> f (dimensions r) = f d
           \<and> tau (dimensions r) = estimateTemporalDepth d
           \<and> lambda (dimensions r) = estimateLensInterference d
           \<and> (coherence r, qOptimized r) = calculateCoherence (dimensions r) l
           \<and> confidence r = assessConfidence (dimensions r)
           \<and> patterns r = detectPatterns (dimensions r) l
           \<and> warnings r = generateWarnings (dimensions r) (coherence r)"
  using assms by (simp add: perceive_def Let_def split: prod.split)

lemma set_push_if: "set (push_if c t) = (if c then {t} else {})"
  by (simp add: push_if_def)

lemma subseq_push_if: "subseq xs ys \<Longrightarrow> subseq (push_if c t @ xs) (t # ys)"
  by (cases c) (auto simp add: push_if_def)

lemma subseq_push_if_last: "subseq (push_if c t) [t]"
  by (simp add: push_if_def)

lemma detectPatterns_order: "subseq (detectPatterns d l) patternTags"
  unfolding detectPatterns_def patternTags_def
  by (intro subseq_push_if subseq_push_if_last)

lemma mem_detectPatterns:
  "''high-consistency'' \<in> set (detectPatterns d l) \<longleftrightarrow> psi d \<ge> 0.7"
  "''low-consistency'' \<in> set (detectPatterns d l) \<longleftrightarrow> psi d \<le> 0.3"
  "''battle-tested'' \<in> set (detectPatterns d l) \<longleftrightarrow> rho d \<ge> 0.7"
  "''immature'' \<in> set (detectPatterns d l) \<longleftrightarrow> rho d \<le> 0.3"
  "''high-activation'' \<in> set (detectPatterns d l) \<longleftrightarrow> q d \<ge> 0.7"
  "''dormant'' \<in> set (detectPatterns d l) \<longleftrightarrow> q d \<le> 0.2"
  "''well-integrated'' \<in> set (detectPatterns d l) \<longleftrightarrow> f d \<ge> 0.7"
  "''isolated'' \<in> set (detectPatterns d l) \<longleftrightarrow> f d \<le> 0.3"
  "''deep-history'' \<in> set (detectPatterns d l) \<longleftrightarrow> tau d \<ge> 0.7"
  "''ephemeral'' \<in> set (detectPatterns d l) \<longleftrightarrow> tau d \<le> 0.3"
  "''observer-interference'' \<in> set (detectPatterns d l) \<longleftrightarrow> lambda d \<ge> 0.5"
  "''stable-mature'' \<in> set (detectPatterns d l) \<longleftrightarrow> psi d \<ge> 0.7 \<and> rho d \<ge> 0.7"
  "''chaotic-active'' \<in> set (detectPatterns d l) \<longleftrightarrow> psi d \<le> 0.3 \<and> q d \<ge> 0.7"
  "''ecosystem-anchor'' \<in> set (detectPatterns d l) \<longleftrightarrow> f d \<ge> 0.7 \<and> rho d \<ge> 0.7"
  by (simp_all add: detectPatterns_def set_push_if)

section \<open>The claims\<close>

subsection \<open>The optimizer\<close>

text \<open>
  \<^bold>\<open>C1\<close> (as amended). For an activation \<open>a\<close> strictly between 0 and 1 and positive
  constants, \<open>optimizeQ a Km Ki\<close> is the quotient \<open>a / (Km + a + a\<^sup>2 / Ki)\<close>, a value
  strictly between 0 and 1, and it is strictly less than \<open>a\<close> exactly when the
  denominator \<open>Km + a + a\<^sup>2 / Ki\<close> exceeds 1. Where the denominator is at most 1 the
  activation is not damped.
\<close>

theorem optimizeQ_damped_iff:
  assumes "0 < a" "a < 1" "0 < km" "0 < ki"
  shows "optimizeQ a km ki = a / (km + a + a\<^sup>2 / ki)
       \<and> 0 < optimizeQ a km ki \<and> optimizeQ a km ki < 1
       \<and> (optimizeQ a km ki < a \<longleftrightarrow> 1 < km + a + a\<^sup>2 / ki)"
proof -
  let ?D = "km + a + a\<^sup>2 / ki"
  have sq: "0 \<le> a\<^sup>2 / ki" using assms by simp
  have aD: "a < ?D" using assms(3) sq by linarith
  have D: "0 < ?D" using assms(1) aD by linarith
  have eq: "optimizeQ a km ki = a / ?D" using assms(1,2) by (rule optimizeQ_unit)
  have pos: "0 < a / ?D" using assms(1) D by simp
  have below: "a / ?D < 1" using aD D by (simp only: divide_less_eq_1_pos)
  show ?thesis using eq pos below damped_iff[OF assms(1) D] by simp
qed

text \<open>At \<open>a = 0.5\<close> with the default constants the denominator is 1.0125: damped to 40/81.\<close>

theorem optimizeQ_damped_iff_witness:
  "(0::real) < 1/2 \<and> (1/2::real) < 1 \<and> (0::real) < 1/5 \<and> (0::real) < 4/5
   \<and> optimizeQ (1/2) (1/5) (4/5) = 40/81
   \<and> optimizeQ (1/2) (1/5) (4/5) < 1/2
   \<and> (1::real) < 1/5 + 1/2 + (1/2)\<^sup>2 / (4/5)"
  using optimizeQ_damped_iff[of "1/2" "1/5" "4/5"]
  by (simp add: power2_eq_square)

text \<open>
  The claim as stated fails: at \<open>a = 0.1\<close> with the default constants the denominator is
  0.3125 and the result, 0.32, is more than three times the input.
\<close>

theorem optimizeQ_amplifies_counterexample:
  "(0::real) < 1/10 \<and> (1/10::real) < 1 \<and> (0::real) < 1/5 \<and> (0::real) < 4/5
   \<and> optimizeQ (1/10) (1/5) (4/5) = 8/25
   \<and> \<not> optimizeQ (1/10) (1/5) (4/5) < 1/10"
  by (simp add: optimizeQ_def)

text \<open>
  \<^bold>\<open>C2\<close> (as amended). \<open>optimizeQ\<close> has no failure: for every activation \<open>a \<le> 0\<close> and any
  constants whatsoever it returns 0, and the constants are never validated. With a
  calibration registered under the requested name, \<open>perceive\<close> returns a report whose
  \<open>qOptimized\<close> is \<open>optimizeQ\<close> of the activation and that calibration's constants, whatever
  their sign; \<open>perceive\<close> fails exactly when \<open>getLens\<close> does.
\<close>

theorem optimizeQ_never_fails:
  "(a \<le> 0 \<longrightarrow> optimizeQ a km ki = 0)
   \<and> (lenses this n = Some c \<longrightarrow>
        (\<exists>r. perceive this d (Some n) = Inr r
             \<and> qOptimized r = optimizeQ (q d) (Km (biologicalParams c)) (Ki (biologicalParams c))))
   \<and> ((\<exists>e. perceive this d nameOpt = Inl e) \<longleftrightarrow> (\<exists>e. getLens this nameOpt = Inl e))"
proof (intro conjI impI)
  assume "a \<le> 0"
  then show "optimizeQ a km ki = 0" by (rule optimizeQ_nonpos)
next
  assume "lenses this n = Some c"
  then have "getLens this (Some n) = Inr c" by (rule getLens_registered)
  from perceive_known[OF this, of d]
  obtain r where r: "perceive this d (Some n) = Inr r"
    and cq: "(coherence r, qOptimized r) = calculateCoherence (dimensions r) c"
    and qr: "q (dimensions r) = q d"
    by blast
  from cq qr have "qOptimized r = optimizeQ (q d) (Km (biologicalParams c)) (Ki (biologicalParams c))"
    by (simp add: calculateCoherence_def Let_def)
  with r show "\<exists>r. perceive this d (Some n) = Inr r
             \<and> qOptimized r = optimizeQ (q d) (Km (biologicalParams c)) (Ki (biologicalParams c))"
    by blast
next
  show "(\<exists>e. perceive this d nameOpt = Inl e) \<longleftrightarrow> (\<exists>e. getLens this nameOpt = Inl e)"
  proof (cases "getLens this nameOpt")
    case (Inl e)
    then show ?thesis by (simp add: perceive_unknown)
  next
    case (Inr l)
    from perceive_known[OF this, of d] obtain r where "perceive this d nameOpt = Inr r"
      by blast
    with Inr show ?thesis by simp
  qed
qed

text \<open>
  A calibration with both constants negative, registered as \<open>''neg''\<close>: a non-positive
  activation gives 0, and the pipeline returns a report.
\<close>

theorem optimizeQ_never_fails_witness:
  "(-1::real) \<le> 0 \<and> optimizeQ (-1) 0 0 = 0
   \<and> lenses (registerLens newRoseGlassService
               (codeAnalysisLens\<lparr> name := ''neg'', biologicalParams := \<lparr> Km = -1, Ki = -1 \<rparr> \<rparr>))
        ''neg''
      = Some (codeAnalysisLens\<lparr> name := ''neg'', biologicalParams := \<lparr> Km = -1, Ki = -1 \<rparr> \<rparr>)
   \<and> (\<exists>r. perceive (registerLens newRoseGlassService
                      (codeAnalysisLens\<lparr> name := ''neg'', biologicalParams := \<lparr> Km = -1, Ki = -1 \<rparr> \<rparr>))
               \<lparr> psi = 1/2, rho = 1/2, q = 1/2, f = 1/2 \<rparr> (Some ''neg'') = Inr r
          \<and> qOptimized r = - (2/3))"
  using optimizeQ_never_fails[where a = "-1" and km = 0 and ki = 0
      and this = "registerLens newRoseGlassService
               (codeAnalysisLens\<lparr> name := ''neg'', biologicalParams := \<lparr> Km = -1, Ki = -1 \<rparr> \<rparr>)"
      and n = "''neg''"
      and c = "codeAnalysisLens\<lparr> name := ''neg'', biologicalParams := \<lparr> Km = -1, Ki = -1 \<rparr> \<rparr>"
      and d = "\<lparr> psi = 1/2, rho = 1/2, q = 1/2, f = 1/2 \<rparr>"]
  by (simp add: lenses_registerLens optimizeQ_def)

text \<open>
  The claim as stated fails: with a positive activation and the saturation constant 0,
  \<open>optimizeQ\<close> returns 8/13, and the pipeline run with such a calibration returns a report
  and no error.
\<close>

theorem invalid_constants_counterexample:
  "(0::real) < 1/2 \<and> (0::real) \<le> 0
   \<and> optimizeQ (1/2) 0 (4/5) = 8/13
   \<and> perceive (registerLens newRoseGlassService
                (codeAnalysisLens\<lparr> name := ''zero-km'', biologicalParams := \<lparr> Km = 0, Ki = 4/5 \<rparr> \<rparr>))
        \<lparr> psi = 1/2, rho = 1/2, q = 1/2, f = 1/2 \<rparr> (Some ''zero-km'')
     = Inr \<lparr> lens = ''zero-km'',
             dimensions = \<lparr> psi = 1/2, rho = 1/2, q = 1/2, f = 1/2, tau = 1/2, lambda = 1/8 \<rparr>,
             coherence = 349/208, qOptimized = 8/13, confidence = Medium,
             patterns = [], warnings = [] \<rparr>"
  by (simp add: eval_defs)

subsection \<open>The pipeline's inputs\<close>




subsection \<open>Coherence\<close>

text \<open>
  \<^bold>\<open>C4\<close>. For every extended dimensions value and every calibration,
  \<open>calculateCoherence\<close> returns \<open>qOptimized = optimizeQ(q, Km, Ki)\<close> and
  \<open>coherence = clamp(psi + rho * psi + qOptimized + f * psi + tau * lambda, 0, 4)\<close>:
  consistency multiplies wisdom and belonging, and the optimized activation and the
  coupling term are added unconditionally.
\<close>

theorem calculateCoherence_formula:
  "snd (calculateCoherence d l) = optimizeQ (q d) (Km (biologicalParams l)) (Ki (biologicalParams l))
   \<and> fst (calculateCoherence d l) =
       spec_clamp (psi d + rho d * psi d + snd (calculateCoherence d l)
                   + f d * psi d + tau d * lambda d) 0 4"
proof -
  have "(0::real) \<le> 4" by simp
  then show ?thesis
    by (simp add: calculateCoherence_def Let_def min_max_clamp)
qed

text \<open>
  \<^bold>\<open>C5\<close>. Two calibrations with equal kinetic constants give the same coherence and the
  same optimized activation on every input, however their weight vectors (or any other
  field) differ; replacing the weight vector of a calibration changes nothing.
\<close>

theorem calculateCoherence_ignores_weights:
  "(Km (biologicalParams l1) = Km (biologicalParams l2)
      \<and> Ki (biologicalParams l1) = Ki (biologicalParams l2)
      \<longrightarrow> calculateCoherence d l1 = calculateCoherence d l2)
   \<and> calculateCoherence d (l\<lparr> weights := w \<rparr>) = calculateCoherence d l"
  by (simp add: calculateCoherence_def)

theorem calculateCoherence_ignores_weights_witness:
  "Km (biologicalParams codeAnalysisLens)
     = Km (biologicalParams (codeAnalysisLens\<lparr> weights := \<lparr> psi = 1, rho = 0, q = 0, f = 0 \<rparr> \<rparr>))
   \<and> Ki (biologicalParams codeAnalysisLens)
     = Ki (biologicalParams (codeAnalysisLens\<lparr> weights := \<lparr> psi = 1, rho = 0, q = 0, f = 0 \<rparr> \<rparr>))
   \<and> weights codeAnalysisLens
     \<noteq> weights (codeAnalysisLens\<lparr> weights := \<lparr> psi = 1, rho = 0, q = 0, f = 0 \<rparr> \<rparr>)
   \<and> calculateCoherence \<lparr> psi = 1/2, rho = 1/2, q = 1/2, f = 1/2, tau = 1/2, lambda = 2/5 \<rparr>
        codeAnalysisLens = (686/405, 40/81)
   \<and> calculateCoherence \<lparr> psi = 1/2, rho = 1/2, q = 1/2, f = 1/2, tau = 1/2, lambda = 2/5 \<rparr>
        (codeAnalysisLens\<lparr> weights := \<lparr> psi = 1, rho = 0, q = 0, f = 0 \<rparr> \<rparr>) = (686/405, 40/81)"
  using calculateCoherence_ignores_weights[where ?l1.0 = codeAnalysisLens
      and ?l2.0 = "codeAnalysisLens\<lparr> weights := \<lparr> psi = 1, rho = 0, q = 0, f = 0 \<rparr> \<rparr>"
      and d = "\<lparr> psi = 1/2, rho = 1/2, q = 1/2, f = 1/2, tau = 1/2, lambda = 2/5 \<rparr>"]
  by (simp add: codeAnalysisLens_def calculateCoherence_def optimizeQ_def Let_def)



subsection \<open>The registry\<close>

text \<open>
  \<^bold>\<open>C7\<close>. On a service built by the constructor and any sequence \<open>cs\<close> of registrations:
  \<open>getLens\<close> with no identifier returns what \<open>getLens\<close> returns for \<open>''code-analysis''\<close>, a
  calibration of that name (the built-in one on a fresh service); with an identifier it
  returns the calibration registered last under that identifier (registration stores or
  overwrites under the calibration's own name); with an identifier under which nothing
  was registered it fails with the error \<open>Unknown lens: \<close> followed by the identifier, and
  does not return the default.
\<close>

theorem getLens_resolution:
  "getLens newRoseGlassService None = Inr codeAnalysisLens
   \<and> getLens (foldl registerLens newRoseGlassService cs) None
       = getLens (foldl registerLens newRoseGlassService cs) (Some ''code-analysis'')
   \<and> (\<exists>c. getLens (foldl registerLens newRoseGlassService cs) None = Inr c
           \<and> name c = ''code-analysis'')
   \<and> getLens (foldl registerLens newRoseGlassService cs) (Some n)
       = (case find (\<lambda>c. name c = n) (rev (codeAnalysisLens # cs)) of
            Some c \<Rightarrow> Inr c
          | None \<Rightarrow> Inl (Error (''Unknown lens: '' @ n)))
   \<and> getLens (registerLens this c) (Some (name c)) = Inr c
   \<and> (n \<notin> name ` set (codeAnalysisLens # cs) \<longrightarrow>
        getLens (foldl registerLens newRoseGlassService cs) (Some n)
          = Inl (Error (''Unknown lens: '' @ n)))
   \<and> (lenses this n = None \<longrightarrow> getLens this (Some n) = Inl (Error (''Unknown lens: '' @ n)))"
proof (intro conjI impI)
  show "getLens newRoseGlassService None = Inr codeAnalysisLens"
    by (rule getLens_new_default)
next
  show "getLens (foldl registerLens newRoseGlassService cs) None
       = getLens (foldl registerLens newRoseGlassService cs) (Some ''code-analysis'')"
    by (simp add: getLens_None defaultLens_registered)
next
  have "find (\<lambda>c. name c = ''code-analysis'') (rev (codeAnalysisLens # cs)) \<noteq> None"
    using name_codeAnalysisLens by (auto simp add: find_None_iff)
  then obtain c where c: "find (\<lambda>c. name c = ''code-analysis'') (rev (codeAnalysisLens # cs)) = Some c"
    by blast
  then have "name c = ''code-analysis''"
    by (auto simp add: find_Some_iff)
  with c show "\<exists>c. getLens (foldl registerLens newRoseGlassService cs) None = Inr c
           \<and> name c = ''code-analysis''"
    by (simp add: getLens_None defaultLens_registered getLens_Some lenses_registered)
next
  show "getLens (foldl registerLens newRoseGlassService cs) (Some n)
       = (case find (\<lambda>c. name c = n) (rev (codeAnalysisLens # cs)) of
            Some c \<Rightarrow> Inr c
          | None \<Rightarrow> Inl (Error (''Unknown lens: '' @ n)))"
    by (simp add: getLens_Some lenses_registered split: option.split)
next
  show "getLens (registerLens this c) (Some (name c)) = Inr c"
    by (simp add: getLens_Some lenses_registerLens)
next
  assume "n \<notin> name ` set (codeAnalysisLens # cs)"
  then have "n \<notin> name ` set (rev (codeAnalysisLens # cs))" by simp
  then have "find (\<lambda>c. name c = n) (rev (codeAnalysisLens # cs)) = None"
    by (rule find_None_image)
  then show "getLens (foldl registerLens newRoseGlassService cs) (Some n)
          = Inl (Error (''Unknown lens: '' @ n))"
    by (simp add: getLens_Some lenses_registered)
next
  assume "lenses this n = None"
  then show "getLens this (Some n) = Inl (Error (''Unknown lens: '' @ n))"
    by (simp add: getLens_Some)
qed

text \<open>
  One more calibration, \<open>''strict''\<close>, registered twice with different constants: the later
  registration wins, the default is untouched, and \<open>''does-not-exist''\<close> fails.
\<close>

theorem getLens_resolution_witness:
  "''does-not-exist'' \<notin> name ` set
      [codeAnalysisLens,
       codeAnalysisLens\<lparr> name := ''strict'', biologicalParams := \<lparr> Km = 1, Ki = 1 \<rparr> \<rparr>,
       codeAnalysisLens\<lparr> name := ''strict'', biologicalParams := \<lparr> Km = 2, Ki = 2 \<rparr> \<rparr>]
   \<and> getLens (foldl registerLens newRoseGlassService
        [codeAnalysisLens\<lparr> name := ''strict'', biologicalParams := \<lparr> Km = 1, Ki = 1 \<rparr> \<rparr>,
         codeAnalysisLens\<lparr> name := ''strict'', biologicalParams := \<lparr> Km = 2, Ki = 2 \<rparr> \<rparr>])
        (Some ''does-not-exist'')
       = Inl (Error ''Unknown lens: does-not-exist'')
   \<and> getLens (foldl registerLens newRoseGlassService
        [codeAnalysisLens\<lparr> name := ''strict'', biologicalParams := \<lparr> Km = 1, Ki = 1 \<rparr> \<rparr>,
         codeAnalysisLens\<lparr> name := ''strict'', biologicalParams := \<lparr> Km = 2, Ki = 2 \<rparr> \<rparr>])
        (Some ''strict'')
       = Inr (codeAnalysisLens\<lparr> name := ''strict'', biologicalParams := \<lparr> Km = 2, Ki = 2 \<rparr> \<rparr>)
   \<and> getLens (foldl registerLens newRoseGlassService
        [codeAnalysisLens\<lparr> name := ''strict'', biologicalParams := \<lparr> Km = 1, Ki = 1 \<rparr> \<rparr>,
         codeAnalysisLens\<lparr> name := ''strict'', biologicalParams := \<lparr> Km = 2, Ki = 2 \<rparr> \<rparr>])
        None
       = Inr codeAnalysisLens"
  using getLens_resolution[where n = "''does-not-exist''" and this = newRoseGlassService
      and c = codeAnalysisLens
      and cs = "[codeAnalysisLens\<lparr> name := ''strict'', biologicalParams := \<lparr> Km = 1, Ki = 1 \<rparr> \<rparr>,
                 codeAnalysisLens\<lparr> name := ''strict'', biologicalParams := \<lparr> Km = 2, Ki = 2 \<rparr> \<rparr>]"]
  by (simp add: getLens_def registerLens_def newRoseGlassService_def codeAnalysisLens_def)

subsection \<open>Pattern tags\<close>

text \<open>
  \<^bold>\<open>C8\<close>. \<open>detectPatterns\<close> emits each tag exactly under its threshold condition: the high
  tag of a dimension at \<open>\<ge> 0.7\<close> and its low tag at \<open>\<le> 0.3\<close>, except that \<open>dormant\<close> fires
  at \<open>q \<le> 0.2\<close> and that the interference has the single tag \<open>observer-interference\<close> at
  \<open>\<ge> 0.5\<close>; then the three combination tags, each under two conditions at once. The
  tags come in the fixed order of \<open>patternTags\<close>, the per-dimension tags before the
  combination tags, and the high and the low tag of one dimension never both appear.
\<close>

theorem detectPatterns_thresholds:
  "(''high-consistency'' \<in> set (detectPatterns d l) \<longleftrightarrow> psi d \<ge> 0.7)
 \<and> (''low-consistency'' \<in> set (detectPatterns d l) \<longleftrightarrow> psi d \<le> 0.3)
 \<and> (''battle-tested'' \<in> set (detectPatterns d l) \<longleftrightarrow> rho d \<ge> 0.7)
 \<and> (''immature'' \<in> set (detectPatterns d l) \<longleftrightarrow> rho d \<le> 0.3)
 \<and> (''high-activation'' \<in> set (detectPatterns d l) \<longleftrightarrow> q d \<ge> 0.7)
 \<and> (''dormant'' \<in> set (detectPatterns d l) \<longleftrightarrow> q d \<le> 0.2)
 \<and> (''well-integrated'' \<in> set (detectPatterns d l) \<longleftrightarrow> f d \<ge> 0.7)
 \<and> (''isolated'' \<in> set (detectPatterns d l) \<longleftrightarrow> f d \<le> 0.3)
 \<and> (''deep-history'' \<in> set (detectPatterns d l) \<longleftrightarrow> tau d \<ge> 0.7)
 \<and> (''ephemeral'' \<in> set (detectPatterns d l) \<longleftrightarrow> tau d \<le> 0.3)
 \<and> (''observer-interference'' \<in> set (detectPatterns d l) \<longleftrightarrow> lambda d \<ge> 0.5)
 \<and> (''stable-mature'' \<in> set (detectPatterns d l) \<longleftrightarrow> psi d \<ge> 0.7 \<and> rho d \<ge> 0.7)
 \<and> (''chaotic-active'' \<in> set (detectPatterns d l) \<longleftrightarrow> psi d \<le> 0.3 \<and> q d \<ge> 0.7)
 \<and> (''ecosystem-anchor'' \<in> set (detectPatterns d l) \<longleftrightarrow> f d \<ge> 0.7 \<and> rho d \<ge> 0.7)
 \<and> subseq (detectPatterns d l) patternTags
 \<and> \<not> (''high-consistency'' \<in> set (detectPatterns d l)
        \<and> ''low-consistency'' \<in> set (detectPatterns d l))
 \<and> \<not> (''battle-tested'' \<in> set (detectPatterns d l) \<and> ''immature'' \<in> set (detectPatterns d l))
 \<and> \<not> (''high-activation'' \<in> set (detectPatterns d l) \<and> ''dormant'' \<in> set (detectPatterns d l))
 \<and> \<not> (''well-integrated'' \<in> set (detectPatterns d l) \<and> ''isolated'' \<in> set (detectPatterns d l))
 \<and> \<not> (''deep-history'' \<in> set (detectPatterns d l) \<and> ''ephemeral'' \<in> set (detectPatterns d l))"
proof -
  have disjoint: "\<not> (x \<ge> 0.7 \<and> x \<le> 0.3)" "\<not> (x \<ge> 0.7 \<and> x \<le> 0.2)" for x :: real
    by simp_all
  show ?thesis
    unfolding mem_detectPatterns
    using detectPatterns_order[of d l] disjoint by blast
qed

text \<open>
  At the boundary values 0.3 and 0.7 the comparisons are inclusive, and one tag per
  dimension fires; the interference fires at exactly 0.5.
\<close>

theorem detectPatterns_thresholds_witness:
  "detectPatterns \<lparr> psi = 0.3, rho = 0.7, q = 0.5, f = 0.3, tau = 0.7, lambda = 0.5 \<rparr>
     codeAnalysisLens
     = [''low-consistency'', ''battle-tested'', ''isolated'', ''deep-history'',
        ''observer-interference'']
   \<and> ''high-consistency'' \<notin> set (detectPatterns
         \<lparr> psi = 0.3, rho = 0.7, q = 0.5, f = 0.3, tau = 0.7, lambda = 0.5 \<rparr> codeAnalysisLens)
   \<and> ''immature'' \<notin> set (detectPatterns
         \<lparr> psi = 0.3, rho = 0.7, q = 0.5, f = 0.3, tau = 0.7, lambda = 0.5 \<rparr> codeAnalysisLens)"
  using detectPatterns_thresholds[where l = codeAnalysisLens
      and d = "\<lparr> psi = 0.3, rho = 0.7, q = 0.5, f = 0.3, tau = 0.7, lambda = 0.5 \<rparr>"]
  by (simp add: detectPatterns_def push_if_def)

subsection \<open>The derived dimensions\<close>

text \<open>
  \<^bold>\<open>C9\<close>. For every raw dimensions value the derived temporal depth is
  \<open>clamp01 (0.6 * rho + 0.4 * psi)\<close> and the derived interference is
  \<open>clamp01 (0.5 * (1 - psi) * q)\<close>, with exactly these coefficients.
\<close>

theorem derived_dimension_formulas:
  "estimateTemporalDepth d = spec_clamp01 (0.6 * rho d + 0.4 * psi d)
   \<and> estimateLensInterference d = spec_clamp01 (0.5 * (1 - psi d) * q d)"
proof -
  have u: "(0::real) \<le> 1" by simp
  have t: "rho d * 0.6 + psi d * 0.4 = 0.6 * rho d + 0.4 * psi d"
    by (simp add: mult.commute)
  have i: "(1.0 - psi d) * q d * 0.5 = 0.5 * (1 - psi d) * q d"
    by (simp add: mult.commute mult.left_commute)
  show ?thesis
    unfolding estimateTemporalDepth_def estimateLensInterference_def Let_def spec_clamp01_def t i
    using min_max_clamp[OF u] by simp
qed

text \<open>
  \<^bold>\<open>C10\<close>. For every real-valued raw dimensions input, in \<open>[0,1]\<close> or not,
  \<open>estimateTemporalDepth\<close> and \<open>estimateLensInterference\<close> return a value in \<open>[0,1]\<close>; in a
  report of \<open>perceive\<close> the two derived dimensions are in \<open>[0,1]\<close> while the four raw
  dimensions are the inputs as they came.
\<close>

theorem derived_dimensions_in_unit_interval:
  "0 \<le> estimateTemporalDepth d \<and> estimateTemporalDepth d \<le> 1
   \<and> 0 \<le> estimateLensInterference d \<and> estimateLensInterference d \<le> 1
   \<and> (perceive this d nameOpt = Inr r \<longrightarrow>
        0 \<le> tau (dimensions r) \<and> tau (dimensions r) \<le> 1
        \<and> 0 \<le> lambda (dimensions r) \<and> lambda (dimensions r) \<le> 1
        \<and> psi (dimensions r) = psi d \<and> rho (dimensions r) = rho d
        \<and> q (dimensions r) = q d \<and> f (dimensions r) = f d)"
proof (intro conjI impI)
  show "0 \<le> estimateTemporalDepth d" "estimateTemporalDepth d \<le> 1"
    using tau_range[of d] by simp_all
  show "0 \<le> estimateLensInterference d" "estimateLensInterference d \<le> 1"
    using lambda_range[of d] by simp_all
next
  assume r: "perceive this d nameOpt = Inr r"
  obtain c where c: "getLens this nameOpt = Inr c"
  proof (cases "getLens this nameOpt")
    case (Inl x)
    with r show ?thesis by (simp add: perceive_unknown)
  next
    case (Inr c)
    then show ?thesis by (rule that)
  qed
  from perceive_known[OF c, of d] r
  have raw: "psi (dimensions r) = psi d" "rho (dimensions r) = rho d"
            "q (dimensions r) = q d" "f (dimensions r) = f d"
    and est: "tau (dimensions r) = estimateTemporalDepth d"
             "lambda (dimensions r) = estimateLensInterference d"
    by auto
  from raw show "psi (dimensions r) = psi d" "rho (dimensions r) = rho d"
    "q (dimensions r) = q d" "f (dimensions r) = f d" by simp_all
  from est show "0 \<le> tau (dimensions r)" "tau (dimensions r) \<le> 1"
    using tau_range[of d] by simp_all
  from est show "0 \<le> lambda (dimensions r)" "lambda (dimensions r) \<le> 1"
    using lambda_range[of d] by simp_all
qed

text \<open>
  An input outside the unit interval: the raw temporal depth, 1, and the raw interference,
  0.375, are computed from \<open>psi = -2\<close> and \<open>rho = 3\<close>, which the report carries unchanged.
\<close>

theorem derived_dimensions_in_unit_interval_witness:
  "perceive newRoseGlassService \<lparr> psi = -2, rho = 3, q = 1/4, f = 1/2 \<rparr> None
     = Inr \<lparr> lens = ''code-analysis'',
             dimensions = \<lparr> psi = -2, rho = 3, q = 1/4, f = 1/2, tau = 1, lambda = 3/8 \<rparr>,
             coherence = 0, qOptimized = 80/169, confidence = Medium,
             patterns = [''low-consistency'', ''battle-tested'', ''deep-history''],
             warnings = [''Low overall coherence - substrate may be unstable''] \<rparr>
   \<and> estimateTemporalDepth \<lparr> psi = -2, rho = 3, q = 1/4, f = 1/2 \<rparr> = 1
   \<and> estimateLensInterference \<lparr> psi = -2, rho = 3, q = 1/4, f = 1/2 \<rparr> = 3/8"
proof -
  have p: "perceive newRoseGlassService \<lparr> psi = -2, rho = 3, q = 1/4, f = 1/2 \<rparr> None
     = Inr \<lparr> lens = ''code-analysis'',
             dimensions = \<lparr> psi = -2, rho = 3, q = 1/4, f = 1/2, tau = 1, lambda = 3/8 \<rparr>,
             coherence = 0, qOptimized = 80/169, confidence = Medium,
             patterns = [''low-consistency'', ''battle-tested'', ''deep-history''],
             warnings = [''Low overall coherence - substrate may be unstable''] \<rparr>"
    by (simp add: eval_defs)
  from derived_dimensions_in_unit_interval[where this = newRoseGlassService
      and d = "\<lparr> psi = -2, rho = 3, q = 1/4, f = 1/2 \<rparr>" and nameOpt = None
      and r = "\<lparr> lens = ''code-analysis'',
             dimensions = \<lparr> psi = -2, rho = 3, q = 1/4, f = 1/2, tau = 1, lambda = 3/8 \<rparr>,
             coherence = 0, qOptimized = 80/169, confidence = Medium,
             patterns = [''low-consistency'', ''battle-tested'', ''deep-history''],
             warnings = [''Low overall coherence - substrate may be unstable''] \<rparr>"] p
  show ?thesis
    by (simp add: estimateTemporalDepth_def estimateLensInterference_def Let_def)
qed

end
